theory Spec2Isabelle
  imports Main
begin

section \<open>Workflow status update handler (api/router/pubsub/WorkflowStatusUpdateHandler.go)\<close>

text \<open>
  The Go file registers two queue subscriptions on a NATS streaming connection. Each
  subscription gets a closure that decodes the message, forwards the decoded status to a
  handler service and, on the deploy channel, may send one notification event. The
  collaborators (handlers, repository, event factory, event client, broker connection) are
  interfaces implemented elsewhere. They are modelled as fields of the receiver record:
  each is a function of its arguments and of an opaque world \<open>'w\<close>, returning its result
  and the next world. Every call the closures make is appended, with its arguments and its
  result, to a trace kept in the state; the theorems read that trace.
\<close>

subsection \<open>Data\<close>

text \<open>A Go \<open>error\<close> result is \<open>error option\<close>: \<open>None\<close> is \<open>nil\<close>.\<close>

type_synonym error = string

text \<open>\<open>v1alpha1.NodeSucceeded\<close>, \<open>NodeFailed\<close>, \<open>NodeError\<close> of the workflow engine's API,
  after the conversion \<open>string(...)\<close> the source applies.\<close>

definition NodeSucceeded :: string where
  "NodeSucceeded = ''Succeeded''"

definition NodeFailed :: string where
  "NodeFailed = ''Failed''"

definition NodeError :: string where
  "NodeError = ''Error''"

text \<open>Modelled from the spec: \<open>bean.WorkflowType\<close> and its constants are declared in a file
  that is not at hand; the specification gives the tag as one of Pre, Post, Deploy.\<close>

datatype WorkflowType =
    CD_WORKFLOW_TYPE_PRE
  | CD_WORKFLOW_TYPE_POST
  | CD_WORKFLOW_TYPE_DEPLOY

text \<open>Modelled from the spec: \<open>util.EventType\<close> is declared in a file that is not at hand;
  the specification gives it as the enumeration Success, Fail plus an unset default. The
  default is what the source writes as \<open>util.EventType(0)\<close>.\<close>

datatype EventType = EventType_0 | Success | Fail

text \<open>Modelled from the spec: \<open>util.CD\<close>, the pipeline category handed to the event factory,
  is declared in a file that is not at hand; the specification calls it category Deploy.\<close>

datatype PipelineType = CI | CD

text \<open>Modelled from the spec: the run record type \<open>pipelineConfig.CdWorkflowRunner\<close> is
  declared in a file that is not at hand. The fields are the ones the source reads
  (\<open>wfr.WorkflowType\<close>, \<open>wfr.CdWorkflow.PipelineId\<close>, \<open>wfr.CdWorkflow.Pipeline.AppId\<close>,
  \<open>wfr.CdWorkflow.Pipeline.EnvironmentId\<close>); the specification lists them as the record's
  workflow type, pipeline, application and environment identifiers. The nested structs are
  taken as values that are present whenever the lookup succeeds.\<close>

record Pipeline =
  AppId :: int
  EnvironmentId :: int

record CdWorkflow =
  PipelineId :: int
  Pipeline :: Pipeline

record CdWorkflowRunner =
  WorkflowType :: WorkflowType
  CdWorkflow :: CdWorkflow

text \<open>\<open>stan.Msg\<close>: the source reads \<open>msg.Data\<close> and calls \<open>msg.Ack()\<close>.\<close>

record Msg =
  Data :: string

text \<open>The subscription options the source passes to \<open>QueueSubscribe\<close>; \<open>AckWait\<close> is a
  \<open>time.Duration\<close>, a signed 64-bit count of nanoseconds.\<close>

record SubscriptionOptions =
  DurableName :: string
  StartWithLastReceived :: bool
  AckWait :: int
  SetManualAckMode :: bool
  MaxInflight :: nat

text \<open>The two closures handed to \<open>QueueSubscribe\<close>, by name.\<close>

datatype callback = wf_update_callback | cd_wf_update_callback

datatype level = DebugLevel | ErrorLevel

datatype log_arg = Text string | Number int

text \<open>One entry per call that leaves the closure: the logger (level and first argument),
  the broker, and each collaborator with arguments and result.\<close>

datatype ('s, 'ev) call =
    Log level log_arg
  | Ack_call Msg "error option"
  | QueueSubscribe_call string string callback SubscriptionOptions "error option"
  | CiUpdateWorkflow_call 's "error option"
  | CdUpdateWorkflow_call 's int string "error option"
  | FindWorkflowRunnerById_call int "error + CdWorkflowRunner"
  | Build_call EventType int int int PipelineType 'ev
  | BuildExtraCDData_call 'ev CdWorkflowRunner int WorkflowType 'ev
  | WriteEvent_call 'ev "error option"

text \<open>The receiver. \<open>'s\<close> is \<open>v1alpha1.WorkflowStatus\<close>, \<open>'ev\<close> the event type of the event
  factory; both are opaque to this file. \<open>json_Unmarshal\<close> and \<open>stan_Ack\<close> are library
  functions rather than fields of the Go struct; they are kept here so that one record
  holds everything the closures depend on. Results the source discards with \<open>_\<close> are left
  out of the result types.\<close>

record ('w, 's, 'ev) WorkflowStatusUpdateHandlerImpl =
  pubsubClient_QueueSubscribe ::
    "string \<Rightarrow> string \<Rightarrow> callback \<Rightarrow> SubscriptionOptions \<Rightarrow> 'w \<Rightarrow> error option \<times> 'w"
  pubsubClient_AckDuration :: int
  ciHandler_UpdateWorkflow :: "'s \<Rightarrow> 'w \<Rightarrow> error option \<times> 'w"
  cdHandler_UpdateWorkflow :: "'s \<Rightarrow> 'w \<Rightarrow> (int \<times> string \<times> error option) \<times> 'w"
  eventFactory_Build ::
    "EventType \<Rightarrow> int \<Rightarrow> int \<Rightarrow> int \<Rightarrow> PipelineType \<Rightarrow> 'w \<Rightarrow> 'ev \<times> 'w"
  eventFactory_BuildExtraCDData ::
    "'ev \<Rightarrow> CdWorkflowRunner \<Rightarrow> int \<Rightarrow> WorkflowType \<Rightarrow> 'w \<Rightarrow> 'ev \<times> 'w"
  eventClient_WriteEvent :: "'ev \<Rightarrow> 'w \<Rightarrow> error option \<times> 'w"
  cdWorkflowRepository_FindWorkflowRunnerById ::
    "int \<Rightarrow> 'w \<Rightarrow> (error + CdWorkflowRunner) \<times> 'w"
  json_Unmarshal :: "string \<Rightarrow> error + 's"
  stan_Ack :: "Msg \<Rightarrow> 'w \<Rightarrow> error option \<times> 'w"

record ('w, 's, 'ev) state =
  world :: 'w
  calls :: "('s, 'ev) call list"

definition workflowStatusUpdate :: string where
  "workflowStatusUpdate = ''WORKFLOW_STATUS_UPDATE''"

definition workflowStatusUpdateGroup :: string where
  "workflowStatusUpdateGroup = ''WORKFLOW_STATUS_UPDATE_GROUP-1''"

definition workflowStatusUpdateDurable :: string where
  "workflowStatusUpdateDurable = ''WORKFLOW_STATUS_UPDATE_DURABLE-1''"

definition cdWorkflowStatusUpdate :: string where
  "cdWorkflowStatusUpdate = ''CD_WORKFLOW_STATUS_UPDATE''"

definition cdWorkflowStatusUpdateGroup :: string where
  "cdWorkflowStatusUpdateGroup = ''CD_WORKFLOW_STATUS_UPDATE_GROUP-1''"

definition cdWorkflowStatusUpdateDurable :: string where
  "cdWorkflowStatusUpdateDurable = ''CD_WORKFLOW_STATUS_UPDATE_DURABLE-1''"

subsection \<open>Effects\<close>

definition emit :: "('s, 'ev) call \<Rightarrow> ('w, 's, 'ev) state \<Rightarrow> ('w, 's, 'ev) state" where
  "emit c s = s\<lparr>calls := calls s @ [c]\<rparr>"

text \<open>The logger writes a line and touches nothing else.\<close>

definition logger :: "level \<Rightarrow> log_arg \<Rightarrow> ('w, 's, 'ev) state \<Rightarrow> ('w, 's, 'ev) state" where
  "logger l a s = emit (Log l a) s"

text \<open>A call of a collaborator: run it on the world, record the call with its result.\<close>

definition invoke ::
  "('w \<Rightarrow> 'r \<times> 'w) \<Rightarrow> ('r \<Rightarrow> ('s, 'ev) call) \<Rightarrow> ('w, 's, 'ev) state
     \<Rightarrow> 'r \<times> ('w, 's, 'ev) state" where
  "invoke f c s = (case f (world s) of (r, w) \<Rightarrow> (r, emit (c r) (s\<lparr>world := w\<rparr>)))"

text \<open>\<open>msg.Ack()\<close>; the source ignores its result.\<close>

definition msg_Ack ::
  "('w, 's, 'ev) WorkflowStatusUpdateHandlerImpl \<Rightarrow> Msg \<Rightarrow> ('w, 's, 'ev) state
     \<Rightarrow> ('w, 's, 'ev) state" where
  "msg_Ack impl msg s = snd (invoke (stan_Ack impl msg) (Ack_call msg) s)"

subsection \<open>The build-channel closure (\<open>Subscribe\<close>, lines 81 to 95)\<close>

text \<open>The body between \<open>defer msg.Ack()\<close> and the closing brace; each \<open>return\<close> of the
  source is a branch that yields the state reached.\<close>

definition wf_update_body ::
  "('w, 's, 'ev) WorkflowStatusUpdateHandlerImpl \<Rightarrow> Msg \<Rightarrow> ('w, 's, 'ev) state
     \<Rightarrow> ('w, 's, 'ev) state" where
  "wf_update_body impl msg s =
     (case json_Unmarshal impl (Data msg) of
        Inl err \<Rightarrow> logger ErrorLevel (Text ''error on wf status update'') s
      | Inr wfStatus \<Rightarrow>
          (case invoke (ciHandler_UpdateWorkflow impl wfStatus)
                       (CiUpdateWorkflow_call wfStatus) s of
             (Some err, s1) \<Rightarrow> logger ErrorLevel (Text ''error on update workflow status'') s1
           | (None, s1) \<Rightarrow> s1))"

text \<open>The whole closure: the debug line, the body, then the deferred acknowledgment.\<close>

definition wf_update ::
  "('w, 's, 'ev) WorkflowStatusUpdateHandlerImpl \<Rightarrow> Msg \<Rightarrow> ('w, 's, 'ev) state
     \<Rightarrow> ('w, 's, 'ev) state" where
  "wf_update impl msg s =
     msg_Ack impl msg
       (wf_update_body impl msg (logger DebugLevel (Text ''received wf update request'') s))"

subsection \<open>The deploy-channel closure (\<open>SubscribeCD\<close>, lines 105 to 154)\<close>

text \<open>The body between \<open>defer msg.Ack()\<close> and the closing brace. The source passes
  \<open>&wfr.CdWorkflow.PipelineId\<close> and \<open>&wfr.CdWorkflow.Pipeline.EnvironmentId\<close> by address; the
  model passes the values.\<close>

definition cd_wf_update_body ::
  "('w, 's, 'ev) WorkflowStatusUpdateHandlerImpl \<Rightarrow> Msg \<Rightarrow> ('w, 's, 'ev) state
     \<Rightarrow> ('w, 's, 'ev) state" where
  "cd_wf_update_body impl msg s =
   (case json_Unmarshal impl (Data msg) of
      Inl err \<Rightarrow> logger ErrorLevel (Text ''err'') s
    | Inr wfStatus \<Rightarrow>
     (case invoke (cdHandler_UpdateWorkflow impl wfStatus)
             (\<lambda>(wfrId, wfrStatus, err). CdUpdateWorkflow_call wfStatus wfrId wfrStatus err)
             (logger DebugLevel (Text ''received cd wf update request body'') s) of
        ((wfrId, wfrStatus, err), s1) \<Rightarrow>
       (let s2 = logger DebugLevel (Number wfrId) s1
        in case err of
             Some e \<Rightarrow> logger ErrorLevel (Text ''err'') s2
           | None \<Rightarrow>
            (case invoke (cdWorkflowRepository_FindWorkflowRunnerById impl wfrId)
                    (FindWorkflowRunnerById_call wfrId) s2 of
               (Inl e, s3) \<Rightarrow> logger ErrorLevel (Text ''could not get wf runner'') s3
             | (Inr wfr, s3) \<Rightarrow>
                 if wfrStatus = NodeSucceeded \<or> wfrStatus = NodeFailed \<or> wfrStatus = NodeError
                 then
                  (let eventType =
                     (if wfrStatus = NodeSucceeded then Success
                      else if wfrStatus = NodeFailed \<or> wfrStatus = NodeError then Fail
                      else EventType_0)
                   in
                   if WorkflowType wfr = CD_WORKFLOW_TYPE_PRE
                   then
                    (case invoke
                            (eventFactory_Build impl eventType (PipelineId (CdWorkflow wfr))
                               (AppId (Pipeline (CdWorkflow wfr)))
                               (EnvironmentId (Pipeline (CdWorkflow wfr))) CD)
                            (Build_call eventType (PipelineId (CdWorkflow wfr))
                               (AppId (Pipeline (CdWorkflow wfr)))
                               (EnvironmentId (Pipeline (CdWorkflow wfr))) CD) s3 of
                       (event, s4) \<Rightarrow>
                      (case invoke
                              (eventFactory_BuildExtraCDData impl event wfr 0 CD_WORKFLOW_TYPE_PRE)
                              (BuildExtraCDData_call event wfr 0 CD_WORKFLOW_TYPE_PRE)
                              (logger DebugLevel (Text ''event pre stage'') s4) of
                         (event', s5) \<Rightarrow>
                        (case invoke (eventClient_WriteEvent impl event')
                                (WriteEvent_call event') s5 of
                           (Some evtErr, s6) \<Rightarrow>
                             logger ErrorLevel
                               (Text ''CD stage post fail or success event unable to sent'') s6
                         | (None, s6) \<Rightarrow> s6)))
                   else if WorkflowType wfr = CD_WORKFLOW_TYPE_POST
                   then
                    (case invoke
                            (eventFactory_Build impl eventType (PipelineId (CdWorkflow wfr))
                               (AppId (Pipeline (CdWorkflow wfr)))
                               (EnvironmentId (Pipeline (CdWorkflow wfr))) CD)
                            (Build_call eventType (PipelineId (CdWorkflow wfr))
                               (AppId (Pipeline (CdWorkflow wfr)))
                               (EnvironmentId (Pipeline (CdWorkflow wfr))) CD) s3 of
                       (event, s4) \<Rightarrow>
                      (case invoke
                              (eventFactory_BuildExtraCDData impl event wfr 0 CD_WORKFLOW_TYPE_POST)
                              (BuildExtraCDData_call event wfr 0 CD_WORKFLOW_TYPE_POST)
                              (logger DebugLevel (Text ''event post stage'') s4) of
                         (event', s5) \<Rightarrow>
                        (case invoke (eventClient_WriteEvent impl event')
                                (WriteEvent_call event') s5 of
                           (Some evtErr, s6) \<Rightarrow>
                             logger ErrorLevel
                               (Text ''CD stage post fail or success event not sent'') s6
                         | (None, s6) \<Rightarrow> s6)))
                   else s3)
                 else s3))))"

definition cd_wf_update ::
  "('w, 's, 'ev) WorkflowStatusUpdateHandlerImpl \<Rightarrow> Msg \<Rightarrow> ('w, 's, 'ev) state
     \<Rightarrow> ('w, 's, 'ev) state" where
  "cd_wf_update impl msg s =
     msg_Ack impl msg
       (cd_wf_update_body impl msg
          (logger DebugLevel (Text ''received cd wf update request'') s))"

text \<open>What a subscription runs when the broker delivers a message to it.\<close>

fun deliver ::
  "('w, 's, 'ev) WorkflowStatusUpdateHandlerImpl \<Rightarrow> callback \<Rightarrow> Msg \<Rightarrow> ('w, 's, 'ev) state
     \<Rightarrow> ('w, 's, 'ev) state" where
  "deliver impl wf_update_callback msg s = wf_update impl msg s"
| "deliver impl cd_wf_update_callback msg s = cd_wf_update impl msg s"

subsection \<open>Registration (\<open>Subscribe\<close>, \<open>SubscribeCD\<close>, the constructor)\<close>

text \<open>Arithmetic on \<open>time.Duration\<close> is arithmetic on \<open>int64\<close>: the result is taken modulo
  \<open>2 ^ 64\<close> into the signed range.\<close>

definition int64 :: "int \<Rightarrow> int" where
  "int64 n = (n + 2 ^ 63) mod 2 ^ 64 - 2 ^ 63"

text \<open>\<open>time.Second\<close>, in nanoseconds.\<close>

definition Second :: int where
  "Second = 1000000000"

text \<open>The options both registrations pass, with the durable name as parameter; \<open>AckWait\<close> is
  \<open>time.Duration(impl.pubsubClient.AckDuration) * time.Second\<close>.\<close>

definition subscriptionOptions ::
  "('w, 's, 'ev) WorkflowStatusUpdateHandlerImpl \<Rightarrow> string \<Rightarrow> SubscriptionOptions" where
  "subscriptionOptions impl durable =
     \<lparr>DurableName = durable, StartWithLastReceived = True,
      AckWait = int64 (int64 (pubsubClient_AckDuration impl) * Second),
      SetManualAckMode = True, MaxInflight = 1\<rparr>"

definition Subscribe ::
  "('w, 's, 'ev) WorkflowStatusUpdateHandlerImpl \<Rightarrow> ('w, 's, 'ev) state
     \<Rightarrow> error option \<times> ('w, 's, 'ev) state" where
  "Subscribe impl s =
     (let opts = subscriptionOptions impl workflowStatusUpdateDurable
      in case invoke (pubsubClient_QueueSubscribe impl workflowStatusUpdate
                        workflowStatusUpdateGroup wf_update_callback opts)
                     (QueueSubscribe_call workflowStatusUpdate workflowStatusUpdateGroup
                        wf_update_callback opts) s of
           (Some err, s1) \<Rightarrow> (Some err, logger ErrorLevel (Text ''err'') s1)
         | (None, s1) \<Rightarrow> (None, s1))"

definition SubscribeCD ::
  "('w, 's, 'ev) WorkflowStatusUpdateHandlerImpl \<Rightarrow> ('w, 's, 'ev) state
     \<Rightarrow> error option \<times> ('w, 's, 'ev) state" where
  "SubscribeCD impl s =
     (let opts = subscriptionOptions impl cdWorkflowStatusUpdateDurable
      in case invoke (pubsubClient_QueueSubscribe impl cdWorkflowStatusUpdate
                        cdWorkflowStatusUpdateGroup cd_wf_update_callback opts)
                     (QueueSubscribe_call cdWorkflowStatusUpdate cdWorkflowStatusUpdateGroup
                        cd_wf_update_callback opts) s of
           (Some err, s1) \<Rightarrow> (Some err, logger ErrorLevel (Text ''err'') s1)
         | (None, s1) \<Rightarrow> (None, s1))"

text \<open>The constructor fills the struct from its arguments (here: the record it is given)
  and registers both subscriptions; \<open>None\<close> is the \<open>nil\<close> it returns on failure.\<close>

definition NewWorkflowStatusUpdateHandlerImpl ::
  "('w, 's, 'ev) WorkflowStatusUpdateHandlerImpl \<Rightarrow> ('w, 's, 'ev) state
     \<Rightarrow> ('w, 's, 'ev) WorkflowStatusUpdateHandlerImpl option \<times> ('w, 's, 'ev) state" where
  "NewWorkflowStatusUpdateHandlerImpl impl s =
     (case Subscribe impl s of
        (Some err, s1) \<Rightarrow> (None, logger ErrorLevel (Text ''err'') s1)
      | (None, s1) \<Rightarrow>
          (case SubscribeCD impl s1 of
             (Some err, s2) \<Rightarrow> (None, logger ErrorLevel (Text ''err'') s2)
           | (None, s2) \<Rightarrow> (Some impl, s2)))"

subsection \<open>Reading a trace\<close>

text \<open>The calls a run added to the trace it started from.\<close>

definition emitted :: "('w, 's, 'ev) state \<Rightarrow> ('w, 's, 'ev) state \<Rightarrow> ('s, 'ev) call list" where
  "emitted s s' = drop (length (calls s)) (calls s')"

text \<open>The calls one delivery of a message to a subscription makes.\<close>

definition delivery_trace ::
  "('w, 's, 'ev) WorkflowStatusUpdateHandlerImpl \<Rightarrow> callback \<Rightarrow> Msg \<Rightarrow> ('w, 's, 'ev) state
     \<Rightarrow> ('s, 'ev) call list" where
  "delivery_trace impl cb msg s = emitted s (deliver impl cb msg s)"

text \<open>The state in which a closure reaches its end, where the deferred \<open>msg.Ack()\<close> runs.\<close>

fun at_return ::
  "('w, 's, 'ev) WorkflowStatusUpdateHandlerImpl \<Rightarrow> callback \<Rightarrow> Msg \<Rightarrow> ('w, 's, 'ev) state
     \<Rightarrow> ('w, 's, 'ev) state" where
  "at_return impl wf_update_callback msg s =
     wf_update_body impl msg (logger DebugLevel (Text ''received wf update request'') s)"
| "at_return impl cd_wf_update_callback msg s =
     cd_wf_update_body impl msg (logger DebugLevel (Text ''received cd wf update request'') s)"

fun is_Ack :: "('s, 'ev) call \<Rightarrow> bool" where
  "is_Ack (Ack_call m r) = True"
| "is_Ack _ = False"

fun is_Log :: "('s, 'ev) call \<Rightarrow> bool" where
  "is_Log (Log l a) = True"
| "is_Log _ = False"

text \<open>The messages acknowledged, in order.\<close>

fun acked :: "('s, 'ev) call \<Rightarrow> Msg list" where
  "acked (Ack_call m r) = [m]"
| "acked _ = []"

definition acks :: "('s, 'ev) call list \<Rightarrow> Msg list" where
  "acks tr = concat (map acked tr)"

text \<open>The events handed to \<open>WriteEvent\<close>, in order: the notifications dispatched.\<close>

fun written :: "('s, 'ev) call \<Rightarrow> 'ev list" where
  "written (WriteEvent_call ev r) = [ev]"
| "written _ = []"

definition dispatched :: "('s, 'ev) call list \<Rightarrow> 'ev list" where
  "dispatched tr = concat (map written tr)"

text \<open>The statuses handed to the build handler's update operation, in order.\<close>

fun ci_updated :: "('s, 'ev) call \<Rightarrow> 's list" where
  "ci_updated (CiUpdateWorkflow_call st r) = [st]"
| "ci_updated _ = []"

definition ci_updates :: "('s, 'ev) call list \<Rightarrow> 's list" where
  "ci_updates tr = concat (map ci_updated tr)"

text \<open>Calls that take part in a notification: the two event factory operations and the
  event client's write.\<close>

fun is_event_call :: "('s, 'ev) call \<Rightarrow> bool" where
  "is_event_call (Build_call t p a e c ev) = True"
| "is_event_call (BuildExtraCDData_call ev r n w ev') = True"
| "is_event_call (WriteEvent_call ev r) = True"
| "is_event_call _ = False"

subsection \<open>Example collaborators\<close>

text \<open>A concrete receiver on which the theorems below are instantiated. The world counts
  the calls that reach a service; a payload decodes to itself unless it is empty; the
  deploy handler reports run 1 with the payload as status string. The outcome of
  registration, of the run-record lookup and of the event write are parameters. An event
  is the event type it was built with and the stage it was enriched for.\<close>

definition example_impl ::
  "error option \<Rightarrow> error + CdWorkflowRunner \<Rightarrow> error option
     \<Rightarrow> (nat, string, EventType \<times> WorkflowType option) WorkflowStatusUpdateHandlerImpl" where
  "example_impl registered found sent =
     \<lparr>pubsubClient_QueueSubscribe = (\<lambda>subject group cb opts w. (registered, Suc w)),
      pubsubClient_AckDuration = 30,
      ciHandler_UpdateWorkflow = (\<lambda>wfStatus w. (None, Suc w)),
      cdHandler_UpdateWorkflow = (\<lambda>wfStatus w. ((1, wfStatus, None), Suc w)),
      eventFactory_Build = (\<lambda>t p a e c w. ((t, None), w)),
      eventFactory_BuildExtraCDData = (\<lambda>ev wfr n stage w. ((fst ev, Some stage), w)),
      eventClient_WriteEvent = (\<lambda>ev w. (sent, Suc w)),
      cdWorkflowRepository_FindWorkflowRunnerById = (\<lambda>i w. (found, w)),
      json_Unmarshal =
        (\<lambda>d. if d = [] then Inl ''unexpected end of JSON input'' else Inr d),
      stan_Ack = (\<lambda>m w. (None, Suc w))\<rparr>"

text \<open>The run record of the specification's example: pipeline 7, application 3,
  environment 9, with the stage as parameter.\<close>

definition example_wfr :: "WorkflowType \<Rightarrow> CdWorkflowRunner" where
  "example_wfr stage =
     \<lparr>WorkflowType = stage,
      CdWorkflow = \<lparr>PipelineId = 7, Pipeline = \<lparr>AppId = 3, EnvironmentId = 9\<rparr>\<rparr>\<rparr>"

definition example_start :: "(nat, string, EventType \<times> WorkflowType option) state" where
  "example_start = \<lparr>world = 0, calls = []\<rparr>"

section \<open>Properties\<close>

subsection \<open>What each primitive does to the state\<close>

lemma calls_emit: "calls (emit c s) = calls s @ [c]"
  by (simp add: emit_def)

lemma world_emit: "world (emit c s) = world s"
  by (simp add: emit_def)

lemma calls_logger: "calls (logger l a s) = calls s @ [Log l a]"
  by (simp add: logger_def calls_emit)

lemma world_logger: "world (logger l a s) = world s"
  by (simp add: logger_def world_emit)

lemma invoke_result:
  assumes "f (world s) = (r, w)"
  shows "invoke f c s = (r, emit (c r) (s\<lparr>world := w\<rparr>))"
  using assms by (simp add: invoke_def)

lemma calls_msg_Ack:
  "calls (msg_Ack impl msg s) = calls s @ [Ack_call msg (fst (stan_Ack impl msg (world s)))]"
  by (simp add: msg_Ack_def invoke_def calls_emit split: prod.splits)

lemma emitted_append: "calls s' = calls s @ tr \<Longrightarrow> emitted s s' = tr"
  by (simp add: emitted_def)

subsection \<open>The paths through the two closures\<close>

text \<open>Every run of the build-channel closure follows one of three paths; the lemma gives
  the calls of each.\<close>

lemma wf_update_paths:
  fixes impl :: "('w, 's, 'ev) WorkflowStatusUpdateHandlerImpl"
  obtains
    (decode_failed) e a where
      "json_Unmarshal impl (Data msg) = Inl e"
      "emitted s (wf_update impl msg s) =
         [Log DebugLevel (Text ''received wf update request''),
          Log ErrorLevel (Text ''error on wf status update''),
          Ack_call msg a]"
      "a = fst (stan_Ack impl msg (world s))"
      "world (wf_update impl msg s) = snd (stan_Ack impl msg (world s))"
  | (update_failed) wfStatus e w1 a where
      "json_Unmarshal impl (Data msg) = Inr wfStatus"
      "ciHandler_UpdateWorkflow impl wfStatus (world s) = (Some e, w1)"
      "emitted s (wf_update impl msg s) =
         [Log DebugLevel (Text ''received wf update request''),
          CiUpdateWorkflow_call wfStatus (Some e),
          Log ErrorLevel (Text ''error on update workflow status''),
          Ack_call msg a]"
  | (updated) wfStatus w1 a where
      "json_Unmarshal impl (Data msg) = Inr wfStatus"
      "ciHandler_UpdateWorkflow impl wfStatus (world s) = (None, w1)"
      "emitted s (wf_update impl msg s) =
         [Log DebugLevel (Text ''received wf update request''),
          CiUpdateWorkflow_call wfStatus None,
          Ack_call msg a]"
proof (cases "json_Unmarshal impl (Data msg)")
  case (Inl e)
  have "calls (wf_update impl msg s) = calls s @
         [Log DebugLevel (Text ''received wf update request''),
          Log ErrorLevel (Text ''error on wf status update''),
          Ack_call msg (fst (stan_Ack impl msg (world s)))]"
    by (simp add: wf_update_def wf_update_body_def Inl calls_msg_Ack calls_logger world_logger)
  moreover have "world (wf_update impl msg s) = snd (stan_Ack impl msg (world s))"
    by (simp add: wf_update_def wf_update_body_def Inl msg_Ack_def invoke_def world_emit
        world_logger split: prod.splits)
  ultimately show ?thesis
    using Inl decode_failed emitted_append by blast
next
  case (Inr wfStatus)
  obtain r w where upd: "ciHandler_UpdateWorkflow impl wfStatus (world s) = (r, w)"
    by (cases "ciHandler_UpdateWorkflow impl wfStatus (world s)")
  show ?thesis
  proof (cases r)
    case None
    have "calls (wf_update impl msg s) = calls s @
         [Log DebugLevel (Text ''received wf update request''),
          CiUpdateWorkflow_call wfStatus None,
          Ack_call msg (fst (stan_Ack impl msg w))]"
      using upd None
      by (simp add: wf_update_def wf_update_body_def Inr calls_msg_Ack calls_logger
          world_logger invoke_def calls_emit world_emit)
    then show ?thesis
      using Inr upd None updated emitted_append by blast
  next
    case (Some e)
    have "calls (wf_update impl msg s) = calls s @
         [Log DebugLevel (Text ''received wf update request''),
          CiUpdateWorkflow_call wfStatus (Some e),
          Log ErrorLevel (Text ''error on update workflow status''),
          Ack_call msg (fst (stan_Ack impl msg w))]"
      using upd Some
      by (simp add: wf_update_def wf_update_body_def Inr calls_msg_Ack calls_logger
          world_logger invoke_def calls_emit world_emit)
    then show ?thesis
      using Inr upd Some update_failed emitted_append by blast
  qed
qed

lemma node_phase_distinct:
  "NodeSucceeded \<noteq> NodeFailed" "NodeSucceeded \<noteq> NodeError" "NodeFailed \<noteq> NodeError"
  "NodeFailed \<noteq> NodeSucceeded" "NodeError \<noteq> NodeSucceeded" "NodeError \<noteq> NodeFailed"
  by (simp_all add: NodeSucceeded_def NodeFailed_def NodeError_def)

lemmas cd_run =
  cd_wf_update_def cd_wf_update_body_def calls_msg_Ack calls_logger world_logger
  invoke_def calls_emit world_emit Let_def node_phase_distinct

text \<open>Every run of the deploy-channel closure follows one of six paths: the decode fails,
  the update fails, the lookup fails, nothing is to be notified (status not terminal, or a
  run of the Deploy stage), the event is written, or the write fails.\<close>

lemma cd_wf_update_paths:
  fixes impl :: "('w, 's, 'ev) WorkflowStatusUpdateHandlerImpl"
  obtains
    (decode_failed) e a where
      "json_Unmarshal impl (Data msg) = Inl e"
      "emitted s (cd_wf_update impl msg s) =
         [Log DebugLevel (Text ''received cd wf update request''),
          Log ErrorLevel (Text ''err''),
          Ack_call msg a]"
      "a = fst (stan_Ack impl msg (world s))"
      "world (cd_wf_update impl msg s) = snd (stan_Ack impl msg (world s))"
  | (update_failed) wfStatus wfrId wfrStatus e w1 a where
      "json_Unmarshal impl (Data msg) = Inr wfStatus"
      "cdHandler_UpdateWorkflow impl wfStatus (world s) = ((wfrId, wfrStatus, Some e), w1)"
      "emitted s (cd_wf_update impl msg s) =
         [Log DebugLevel (Text ''received cd wf update request''),
          Log DebugLevel (Text ''received cd wf update request body''),
          CdUpdateWorkflow_call wfStatus wfrId wfrStatus (Some e),
          Log DebugLevel (Number wfrId),
          Log ErrorLevel (Text ''err''),
          Ack_call msg a]"
  | (lookup_failed) wfStatus wfrId wfrStatus w1 e w2 a where
      "json_Unmarshal impl (Data msg) = Inr wfStatus"
      "cdHandler_UpdateWorkflow impl wfStatus (world s) = ((wfrId, wfrStatus, None), w1)"
      "cdWorkflowRepository_FindWorkflowRunnerById impl wfrId w1 = (Inl e, w2)"
      "emitted s (cd_wf_update impl msg s) =
         [Log DebugLevel (Text ''received cd wf update request''),
          Log DebugLevel (Text ''received cd wf update request body''),
          CdUpdateWorkflow_call wfStatus wfrId wfrStatus None,
          Log DebugLevel (Number wfrId),
          FindWorkflowRunnerById_call wfrId (Inl e),
          Log ErrorLevel (Text ''could not get wf runner''),
          Ack_call msg a]"
  | (silent) wfStatus wfrId wfrStatus w1 wfr w2 a where
      "json_Unmarshal impl (Data msg) = Inr wfStatus"
      "cdHandler_UpdateWorkflow impl wfStatus (world s) = ((wfrId, wfrStatus, None), w1)"
      "cdWorkflowRepository_FindWorkflowRunnerById impl wfrId w1 = (Inr wfr, w2)"
      "(wfrStatus \<noteq> NodeSucceeded \<and> wfrStatus \<noteq> NodeFailed \<and> wfrStatus \<noteq> NodeError)
       \<or> WorkflowType wfr = CD_WORKFLOW_TYPE_DEPLOY"
      "emitted s (cd_wf_update impl msg s) =
         [Log DebugLevel (Text ''received cd wf update request''),
          Log DebugLevel (Text ''received cd wf update request body''),
          CdUpdateWorkflow_call wfStatus wfrId wfrStatus None,
          Log DebugLevel (Number wfrId),
          FindWorkflowRunnerById_call wfrId (Inr wfr),
          Ack_call msg a]"
  | (sent) wfStatus wfrId wfrStatus w1 wfr w2 dbg ev ev' a where
      "json_Unmarshal impl (Data msg) = Inr wfStatus"
      "cdHandler_UpdateWorkflow impl wfStatus (world s) = ((wfrId, wfrStatus, None), w1)"
      "cdWorkflowRepository_FindWorkflowRunnerById impl wfrId w1 = (Inr wfr, w2)"
      "wfrStatus = NodeSucceeded \<or> wfrStatus = NodeFailed \<or> wfrStatus = NodeError"
      "WorkflowType wfr = CD_WORKFLOW_TYPE_PRE \<or> WorkflowType wfr = CD_WORKFLOW_TYPE_POST"
      "emitted s (cd_wf_update impl msg s) =
         [Log DebugLevel (Text ''received cd wf update request''),
          Log DebugLevel (Text ''received cd wf update request body''),
          CdUpdateWorkflow_call wfStatus wfrId wfrStatus None,
          Log DebugLevel (Number wfrId),
          FindWorkflowRunnerById_call wfrId (Inr wfr),
          Build_call (if wfrStatus = NodeSucceeded then Success else Fail)
            (PipelineId (CdWorkflow wfr)) (AppId (Pipeline (CdWorkflow wfr)))
            (EnvironmentId (Pipeline (CdWorkflow wfr))) CD ev,
          Log DebugLevel dbg,
          BuildExtraCDData_call ev wfr 0 (WorkflowType wfr) ev',
          WriteEvent_call ev' None,
          Ack_call msg a]"
  | (send_failed) wfStatus wfrId wfrStatus w1 wfr w2 dbg ev ev' e errText a where
      "json_Unmarshal impl (Data msg) = Inr wfStatus"
      "cdHandler_UpdateWorkflow impl wfStatus (world s) = ((wfrId, wfrStatus, None), w1)"
      "cdWorkflowRepository_FindWorkflowRunnerById impl wfrId w1 = (Inr wfr, w2)"
      "wfrStatus = NodeSucceeded \<or> wfrStatus = NodeFailed \<or> wfrStatus = NodeError"
      "WorkflowType wfr = CD_WORKFLOW_TYPE_PRE \<or> WorkflowType wfr = CD_WORKFLOW_TYPE_POST"
      "emitted s (cd_wf_update impl msg s) =
         [Log DebugLevel (Text ''received cd wf update request''),
          Log DebugLevel (Text ''received cd wf update request body''),
          CdUpdateWorkflow_call wfStatus wfrId wfrStatus None,
          Log DebugLevel (Number wfrId),
          FindWorkflowRunnerById_call wfrId (Inr wfr),
          Build_call (if wfrStatus = NodeSucceeded then Success else Fail)
            (PipelineId (CdWorkflow wfr)) (AppId (Pipeline (CdWorkflow wfr)))
            (EnvironmentId (Pipeline (CdWorkflow wfr))) CD ev,
          Log DebugLevel dbg,
          BuildExtraCDData_call ev wfr 0 (WorkflowType wfr) ev',
          WriteEvent_call ev' (Some e),
          Log ErrorLevel errText,
          Ack_call msg a]"
proof (cases "json_Unmarshal impl (Data msg)")
  case (Inl e)
  have "calls (cd_wf_update impl msg s) = calls s @
         [Log DebugLevel (Text ''received cd wf update request''),
          Log ErrorLevel (Text ''err''),
          Ack_call msg (fst (stan_Ack impl msg (world s)))]"
    by (simp add: cd_run Inl)
  moreover have "world (cd_wf_update impl msg s) = snd (stan_Ack impl msg (world s))"
    by (simp add: cd_wf_update_def cd_wf_update_body_def Inl msg_Ack_def invoke_def world_emit
        world_logger split: prod.splits)
  ultimately show ?thesis
    using Inl decode_failed emitted_append by blast
next
  case (Inr wfStatus)
  obtain wfrId wfrStatus err w1 where
    upd: "cdHandler_UpdateWorkflow impl wfStatus (world s) = ((wfrId, wfrStatus, err), w1)"
    by (metis prod.exhaust)
  show ?thesis
  proof (cases err)
    case (Some e)
    have "calls (cd_wf_update impl msg s) = calls s @
         [Log DebugLevel (Text ''received cd wf update request''),
          Log DebugLevel (Text ''received cd wf update request body''),
          CdUpdateWorkflow_call wfStatus wfrId wfrStatus (Some e),
          Log DebugLevel (Number wfrId),
          Log ErrorLevel (Text ''err''),
          Ack_call msg (fst (stan_Ack impl msg w1))]"
      using upd Some by (simp add: cd_run Inr)
    then show ?thesis
      using Inr upd Some update_failed emitted_append by blast
  next
    case None
    obtain found w2 where
      find: "cdWorkflowRepository_FindWorkflowRunnerById impl wfrId w1 = (found, w2)"
      by (metis prod.exhaust)
    show ?thesis
    proof (cases found)
      case (Inl e)
      have "calls (cd_wf_update impl msg s) = calls s @
         [Log DebugLevel (Text ''received cd wf update request''),
          Log DebugLevel (Text ''received cd wf update request body''),
          CdUpdateWorkflow_call wfStatus wfrId wfrStatus None,
          Log DebugLevel (Number wfrId),
          FindWorkflowRunnerById_call wfrId (Inl e),
          Log ErrorLevel (Text ''could not get wf runner''),
          Ack_call msg (fst (stan_Ack impl msg w2))]"
        using upd None find Inl by (simp add: cd_run Inr)
      then show ?thesis
        using Inr upd None find Inl lookup_failed emitted_append by blast
    next
      case found_wfr: (Inr wfr)
      let ?quiet = "calls s @
         [Log DebugLevel (Text ''received cd wf update request''),
          Log DebugLevel (Text ''received cd wf update request body''),
          CdUpdateWorkflow_call wfStatus wfrId wfrStatus None,
          Log DebugLevel (Number wfrId),
          FindWorkflowRunnerById_call wfrId (Inr wfr),
          Ack_call msg (fst (stan_Ack impl msg w2))]"
      show ?thesis
      proof (cases "wfrStatus = NodeSucceeded \<or> wfrStatus = NodeFailed \<or> wfrStatus = NodeError")
        case False
        have "calls (cd_wf_update impl msg s) = ?quiet"
          using upd None find found_wfr False by (simp add: cd_run Inr)
        then show ?thesis
          using Inr upd None find found_wfr False silent emitted_append by blast
      next
        case terminal: True
        define et where "et = (if wfrStatus = NodeSucceeded then Success else Fail)"
        have et: "(if wfrStatus = NodeSucceeded then Success
                   else if wfrStatus = NodeFailed \<or> wfrStatus = NodeError then Fail
                   else EventType_0) = et"
          using terminal by (auto simp: et_def)
        let ?pid = "PipelineId (CdWorkflow wfr)"
        let ?app = "AppId (Pipeline (CdWorkflow wfr))"
        let ?env = "EnvironmentId (Pipeline (CdWorkflow wfr))"
        obtain ev w3 where
          build: "eventFactory_Build impl et ?pid ?app ?env CD w2 = (ev, w3)"
          by (metis prod.exhaust)
        obtain ev' w4 where
          extra: "eventFactory_BuildExtraCDData impl ev wfr 0 (WorkflowType wfr) w3 = (ev', w4)"
          by (metis prod.exhaust)
        obtain r w5 where
          wrote: "eventClient_WriteEvent impl ev' w4 = (r, w5)"
          by (metis prod.exhaust)
        show ?thesis
        proof (cases "WorkflowType wfr")
          case CD_WORKFLOW_TYPE_DEPLOY
          have "calls (cd_wf_update impl msg s) = ?quiet"
            using upd None find found_wfr terminal CD_WORKFLOW_TYPE_DEPLOY
            by (simp add: cd_run Inr)
          then show ?thesis
            using Inr upd None find found_wfr CD_WORKFLOW_TYPE_DEPLOY silent emitted_append by blast
        next
          case CD_WORKFLOW_TYPE_PRE
          show ?thesis
          proof (cases r)
            case no_err: None
            have "calls (cd_wf_update impl msg s) = calls s @
             [Log DebugLevel (Text ''received cd wf update request''),
              Log DebugLevel (Text ''received cd wf update request body''),
              CdUpdateWorkflow_call wfStatus wfrId wfrStatus None,
              Log DebugLevel (Number wfrId),
              FindWorkflowRunnerById_call wfrId (Inr wfr),
              Build_call et ?pid ?app ?env CD ev,
              Log DebugLevel (Text ''event pre stage''),
              BuildExtraCDData_call ev wfr 0 (WorkflowType wfr) ev',
              WriteEvent_call ev' None,
              Ack_call msg (fst (stan_Ack impl msg w5))]"
              using upd None find found_wfr terminal CD_WORKFLOW_TYPE_PRE build extra wrote no_err
              by (simp add: cd_run Inr et)
            then show ?thesis
              using Inr upd None find found_wfr terminal CD_WORKFLOW_TYPE_PRE sent emitted_append
              unfolding et_def by blast
          next
            case write_err: (Some e)
            have "calls (cd_wf_update impl msg s) = calls s @
             [Log DebugLevel (Text ''received cd wf update request''),
              Log DebugLevel (Text ''received cd wf update request body''),
              CdUpdateWorkflow_call wfStatus wfrId wfrStatus None,
              Log DebugLevel (Number wfrId),
              FindWorkflowRunnerById_call wfrId (Inr wfr),
              Build_call et ?pid ?app ?env CD ev,
              Log DebugLevel (Text ''event pre stage''),
              BuildExtraCDData_call ev wfr 0 (WorkflowType wfr) ev',
              WriteEvent_call ev' (Some e),
              Log ErrorLevel (Text ''CD stage post fail or success event unable to sent''),
              Ack_call msg (fst (stan_Ack impl msg w5))]"
              using upd None find found_wfr terminal CD_WORKFLOW_TYPE_PRE build extra wrote write_err
              by (simp add: cd_run Inr et)
            then show ?thesis
              using Inr upd None find found_wfr terminal CD_WORKFLOW_TYPE_PRE send_failed emitted_append
              unfolding et_def by blast
          qed
        next
          case CD_WORKFLOW_TYPE_POST
          show ?thesis
          proof (cases r)
            case no_err: None
            have "calls (cd_wf_update impl msg s) = calls s @
             [Log DebugLevel (Text ''received cd wf update request''),
              Log DebugLevel (Text ''received cd wf update request body''),
              CdUpdateWorkflow_call wfStatus wfrId wfrStatus None,
              Log DebugLevel (Number wfrId),
              FindWorkflowRunnerById_call wfrId (Inr wfr),
              Build_call et ?pid ?app ?env CD ev,
              Log DebugLevel (Text ''event post stage''),
              BuildExtraCDData_call ev wfr 0 (WorkflowType wfr) ev',
              WriteEvent_call ev' None,
              Ack_call msg (fst (stan_Ack impl msg w5))]"
              using upd None find found_wfr terminal CD_WORKFLOW_TYPE_POST build extra wrote no_err
              by (simp add: cd_run Inr et)
            then show ?thesis
              using Inr upd None find found_wfr terminal CD_WORKFLOW_TYPE_POST sent emitted_append
              unfolding et_def by blast
          next
            case write_err: (Some e)
            have "calls (cd_wf_update impl msg s) = calls s @
             [Log DebugLevel (Text ''received cd wf update request''),
              Log DebugLevel (Text ''received cd wf update request body''),
              CdUpdateWorkflow_call wfStatus wfrId wfrStatus None,
              Log DebugLevel (Number wfrId),
              FindWorkflowRunnerById_call wfrId (Inr wfr),
              Build_call et ?pid ?app ?env CD ev,
              Log DebugLevel (Text ''event post stage''),
              BuildExtraCDData_call ev wfr 0 (WorkflowType wfr) ev',
              WriteEvent_call ev' (Some e),
              Log ErrorLevel (Text ''CD stage post fail or success event not sent''),
              Ack_call msg (fst (stan_Ack impl msg w5))]"
              using upd None find found_wfr terminal CD_WORKFLOW_TYPE_POST build extra wrote write_err
              by (simp add: cd_run Inr et)
            then show ?thesis
              using Inr upd None find found_wfr terminal CD_WORKFLOW_TYPE_POST send_failed emitted_append
              unfolding et_def by blast
          qed
        qed
      qed
    qed
  qed
qed

lemma cd_trace:
  "delivery_trace impl cd_wf_update_callback msg s = emitted s (cd_wf_update impl msg s)"
  by (simp add: delivery_trace_def)

lemma ci_trace:
  "delivery_trace impl wf_update_callback msg s = emitted s (wf_update impl msg s)"
  by (simp add: delivery_trace_def)

text \<open>A delivery is the closure's body followed by the deferred acknowledgment, which
  is therefore the last call of the trace and decides the final world.\<close>

lemma world_msg_Ack:
  "world (msg_Ack impl msg s) = snd (stan_Ack impl msg (world s))"
  by (simp add: msg_Ack_def invoke_def world_emit split: prod.splits)

lemma deliver_at_return:
  "deliver impl cb msg s = msg_Ack impl msg (at_return impl cb msg s)"
  by (cases cb) (simp_all add: wf_update_def cd_wf_update_def)

lemma delivery_trace_not_empty: "delivery_trace impl cb msg s \<noteq> []"
proof (cases cb)
  case wf_update_callback
  show ?thesis
    by (cases rule: wf_update_paths [of impl msg s]) (simp_all add: wf_update_callback ci_trace)
next
  case cd_wf_update_callback
  show ?thesis
    by (cases rule: cd_wf_update_paths [of impl msg s])
      (simp_all add: cd_wf_update_callback cd_trace)
qed

lemma last_delivery_trace:
  "last (delivery_trace impl cb msg s) =
     Ack_call msg (fst (stan_Ack impl msg (world (at_return impl cb msg s))))"
proof -
  have "drop (length (calls s)) (calls (deliver impl cb msg s)) \<noteq> []"
    using delivery_trace_not_empty [of impl cb msg s]
    by (simp add: delivery_trace_def emitted_def)
  then have "length (calls s) < length (calls (deliver impl cb msg s))"
    by simp
  then have "last (delivery_trace impl cb msg s) = last (calls (deliver impl cb msg s))"
    by (simp add: delivery_trace_def emitted_def last_drop)
  then show ?thesis
    by (simp add: deliver_at_return calls_msg_Ack)
qed

text \<open>The run of the build-channel closure on a payload that decodes, in terms of what the
  build handler and the acknowledgment return.\<close>

lemmas world_run =
  world_msg_Ack world_logger world_emit invoke_def Let_def node_phase_distinct

lemma wf_update_decoded:
  assumes "json_Unmarshal impl (Data msg) = Inr wfStatus"
    and "ciHandler_UpdateWorkflow impl wfStatus (world s) = (r, w1)"
  shows "calls (wf_update impl msg s) = calls s @
           [Log DebugLevel (Text ''received wf update request''),
            CiUpdateWorkflow_call wfStatus r]
           @ (case r of None \<Rightarrow> []
              | Some e \<Rightarrow> [Log ErrorLevel (Text ''error on update workflow status'')])
           @ [Ack_call msg (fst (stan_Ack impl msg w1))]"
    and "world (wf_update impl msg s) = snd (stan_Ack impl msg w1)"
  using assms
  by (cases r;
      simp add: wf_update_def wf_update_body_def calls_msg_Ack calls_logger calls_emit
        world_run)+

text \<open>The run of the deploy-channel closure on the path that notifies, in terms of what
  each collaborator returns on the world the previous one left.\<close>

lemma cd_wf_update_notifies:
  assumes "json_Unmarshal impl (Data msg) = Inr wfStatus"
    and "cdHandler_UpdateWorkflow impl wfStatus (world s) = ((wfrId, wfrStatus, None), w1)"
    and "cdWorkflowRepository_FindWorkflowRunnerById impl wfrId w1 = (Inr wfr, w2)"
    and terminal: "wfrStatus = NodeSucceeded \<or> wfrStatus = NodeFailed \<or> wfrStatus = NodeError"
    and stage: "WorkflowType wfr = CD_WORKFLOW_TYPE_PRE \<or> WorkflowType wfr = CD_WORKFLOW_TYPE_POST"
    and "eventFactory_Build impl (if wfrStatus = NodeSucceeded then Success else Fail)
           (PipelineId (CdWorkflow wfr)) (AppId (Pipeline (CdWorkflow wfr)))
           (EnvironmentId (Pipeline (CdWorkflow wfr))) CD w2 = (ev, w3)"
    and "eventFactory_BuildExtraCDData impl ev wfr 0 (WorkflowType wfr) w3 = (ev', w4)"
    and "eventClient_WriteEvent impl ev' w4 = (r, w5)"
  shows "\<exists>dbg failure. calls (cd_wf_update impl msg s) = calls s @
           [Log DebugLevel (Text ''received cd wf update request''),
            Log DebugLevel (Text ''received cd wf update request body''),
            CdUpdateWorkflow_call wfStatus wfrId wfrStatus None,
            Log DebugLevel (Number wfrId),
            FindWorkflowRunnerById_call wfrId (Inr wfr),
            Build_call (if wfrStatus = NodeSucceeded then Success else Fail)
              (PipelineId (CdWorkflow wfr)) (AppId (Pipeline (CdWorkflow wfr)))
              (EnvironmentId (Pipeline (CdWorkflow wfr))) CD ev,
            Log DebugLevel dbg,
            BuildExtraCDData_call ev wfr 0 (WorkflowType wfr) ev',
            WriteEvent_call ev' r]
           @ (case r of None \<Rightarrow> [] | Some e \<Rightarrow> [Log ErrorLevel failure])
           @ [Ack_call msg (fst (stan_Ack impl msg w5))]"
    and "world (cd_wf_update impl msg s) = snd (stan_Ack impl msg w5)"
proof -
  define et where "et = (if wfrStatus = NodeSucceeded then Success else Fail)"
  have et: "(if wfrStatus = NodeSucceeded then Success
             else if wfrStatus = NodeFailed \<or> wfrStatus = NodeError then Fail
             else EventType_0) = et"
    using terminal by (auto simp: et_def)
  note env = assms(1-3,6-8) [folded et_def]
  have "\<exists>dbg failure. calls (cd_wf_update impl msg s) = calls s @
           [Log DebugLevel (Text ''received cd wf update request''),
            Log DebugLevel (Text ''received cd wf update request body''),
            CdUpdateWorkflow_call wfStatus wfrId wfrStatus None,
            Log DebugLevel (Number wfrId),
            FindWorkflowRunnerById_call wfrId (Inr wfr),
            Build_call et
              (PipelineId (CdWorkflow wfr)) (AppId (Pipeline (CdWorkflow wfr)))
              (EnvironmentId (Pipeline (CdWorkflow wfr))) CD ev,
            Log DebugLevel dbg,
            BuildExtraCDData_call ev wfr 0 (WorkflowType wfr) ev',
            WriteEvent_call ev' r]
           @ (case r of None \<Rightarrow> [] | Some e \<Rightarrow> [Log ErrorLevel failure])
           @ [Ack_call msg (fst (stan_Ack impl msg w5))]"
    using stage
  proof
    assume pre: "WorkflowType wfr = CD_WORKFLOW_TYPE_PRE"
    show ?thesis
      using env terminal pre
      by (cases r) (simp_all add: cd_run et)
  next
    assume post: "WorkflowType wfr = CD_WORKFLOW_TYPE_POST"
    show ?thesis
      using env terminal post
      by (cases r) (simp_all add: cd_run et)
  qed
  then show "\<exists>dbg failure. calls (cd_wf_update impl msg s) = calls s @
           [Log DebugLevel (Text ''received cd wf update request''),
            Log DebugLevel (Text ''received cd wf update request body''),
            CdUpdateWorkflow_call wfStatus wfrId wfrStatus None,
            Log DebugLevel (Number wfrId),
            FindWorkflowRunnerById_call wfrId (Inr wfr),
            Build_call (if wfrStatus = NodeSucceeded then Success else Fail)
              (PipelineId (CdWorkflow wfr)) (AppId (Pipeline (CdWorkflow wfr)))
              (EnvironmentId (Pipeline (CdWorkflow wfr))) CD ev,
            Log DebugLevel dbg,
            BuildExtraCDData_call ev wfr 0 (WorkflowType wfr) ev',
            WriteEvent_call ev' r]
           @ (case r of None \<Rightarrow> [] | Some e \<Rightarrow> [Log ErrorLevel failure])
           @ [Ack_call msg (fst (stan_Ack impl msg w5))]"
    unfolding et_def .
  show "world (cd_wf_update impl msg s) = snd (stan_Ack impl msg w5)"
    using stage
  proof
    assume pre: "WorkflowType wfr = CD_WORKFLOW_TYPE_PRE"
    show ?thesis
      using env terminal pre
      by (cases r) (simp_all add: cd_wf_update_def cd_wf_update_body_def world_run et)
  next
    assume post: "WorkflowType wfr = CD_WORKFLOW_TYPE_POST"
    show ?thesis
      using env terminal post
      by (cases r) (simp_all add: cd_wf_update_def cd_wf_update_body_def world_run et)
  qed
qed

text \<open>The trace records what the collaborators returned: the update result and the lookup
  result of a deploy-channel delivery are in its trace.\<close>

lemma update_result_recorded:
  assumes "json_Unmarshal impl (Data msg) = Inr wfStatus"
    and "cdHandler_UpdateWorkflow impl wfStatus (world s) = ((wfrId, wfrStatus, err), w1)"
  shows "CdUpdateWorkflow_call wfStatus wfrId wfrStatus err
           \<in> set (delivery_trace impl cd_wf_update_callback msg s)"
  using assms unfolding cd_trace
  by (cases rule: cd_wf_update_paths [of impl msg s]) auto

lemma lookup_result_recorded:
  assumes "json_Unmarshal impl (Data msg) = Inr wfStatus"
    and "cdHandler_UpdateWorkflow impl wfStatus (world s) = ((wfrId, wfrStatus, None), w1)"
    and "cdWorkflowRepository_FindWorkflowRunnerById impl wfrId w1 = (found, w2)"
  shows "FindWorkflowRunnerById_call wfrId found
           \<in> set (delivery_trace impl cd_wf_update_callback msg s)"
  using assms unfolding cd_trace
  by (cases rule: cd_wf_update_paths [of impl msg s]) auto

subsection \<open>Runs of the example collaborators\<close>

lemmas example_run =
  delivery_trace_def emitted_def emit_def logger_def invoke_def msg_Ack_def Let_def
  wf_update_def wf_update_body_def cd_wf_update_def cd_wf_update_body_def
  example_impl_def example_wfr_def example_start_def
  NodeSucceeded_def NodeFailed_def NodeError_def


lemma example_deploy_error:
  "delivery_trace (example_impl None (Inr (example_wfr CD_WORKFLOW_TYPE_DEPLOY)) None)
     cd_wf_update_callback \<lparr>Data = ''Error''\<rparr> example_start =
   [Log DebugLevel (Text ''received cd wf update request''),
    Log DebugLevel (Text ''received cd wf update request body''),
    CdUpdateWorkflow_call ''Error'' 1 ''Error'' None,
    Log DebugLevel (Number 1),
    FindWorkflowRunnerById_call 1 (Inr (example_wfr CD_WORKFLOW_TYPE_DEPLOY)),
    Ack_call \<lparr>Data = ''Error''\<rparr> None]"
  by (simp add: example_run)

lemma example_pre_running:
  "delivery_trace (example_impl None (Inr (example_wfr CD_WORKFLOW_TYPE_PRE)) None)
     cd_wf_update_callback \<lparr>Data = ''Running''\<rparr> example_start =
   [Log DebugLevel (Text ''received cd wf update request''),
    Log DebugLevel (Text ''received cd wf update request body''),
    CdUpdateWorkflow_call ''Running'' 1 ''Running'' None,
    Log DebugLevel (Number 1),
    FindWorkflowRunnerById_call 1 (Inr (example_wfr CD_WORKFLOW_TYPE_PRE)),
    Ack_call \<lparr>Data = ''Running''\<rparr> None]"
  by (simp add: example_run)

lemma example_lookup_failed:
  "delivery_trace (example_impl None (Inl ''pg: no rows in result set'') None)
     cd_wf_update_callback \<lparr>Data = ''Succeeded''\<rparr> example_start =
   [Log DebugLevel (Text ''received cd wf update request''),
    Log DebugLevel (Text ''received cd wf update request body''),
    CdUpdateWorkflow_call ''Succeeded'' 1 ''Succeeded'' None,
    Log DebugLevel (Number 1),
    FindWorkflowRunnerById_call 1 (Inl ''pg: no rows in result set''),
    Log ErrorLevel (Text ''could not get wf runner''),
    Ack_call \<lparr>Data = ''Succeeded''\<rparr> None]"
  by (simp add: example_run)


lemma example_post_error:
  "delivery_trace (example_impl None (Inr (example_wfr CD_WORKFLOW_TYPE_POST)) None)
     cd_wf_update_callback \<lparr>Data = ''Error''\<rparr> example_start =
   [Log DebugLevel (Text ''received cd wf update request''),
    Log DebugLevel (Text ''received cd wf update request body''),
    CdUpdateWorkflow_call ''Error'' 1 ''Error'' None,
    Log DebugLevel (Number 1),
    FindWorkflowRunnerById_call 1 (Inr (example_wfr CD_WORKFLOW_TYPE_POST)),
    Build_call Fail 7 3 9 CD (Fail, None),
    Log DebugLevel (Text ''event post stage''),
    BuildExtraCDData_call (Fail, None) (example_wfr CD_WORKFLOW_TYPE_POST) 0
      CD_WORKFLOW_TYPE_POST (Fail, Some CD_WORKFLOW_TYPE_POST),
    WriteEvent_call (Fail, Some CD_WORKFLOW_TYPE_POST) None,
    Ack_call \<lparr>Data = ''Error''\<rparr> None]"
  by (simp add: example_run)

subsection \<open>Acknowledgment\<close>

text \<open>
  Claim C1. On either subscription, one delivery acknowledges the delivered message exactly
  once. The acknowledgment is the last call of the run, it carries what \<open>msg.Ack()\<close> returns
  on the world the closure's body has reached, and the world after the delivery is the one
  that call leaves: it is the deferred call, made when the closure returns. Nothing is
  assumed about the receiver, so this holds whether decoding, the update, the lookup or the
  event write succeed or fail.
\<close>

theorem ack_exactly_once_on_return:
  "acks (delivery_trace impl cb msg s) = [msg]
   \<and> last (delivery_trace impl cb msg s) =
       Ack_call msg (fst (stan_Ack impl msg (world (at_return impl cb msg s))))
   \<and> world (deliver impl cb msg s) =
       snd (stan_Ack impl msg (world (at_return impl cb msg s)))"
proof -
  have "acks (delivery_trace impl cb msg s) = [msg]"
  proof (cases cb)
    case wf_update_callback
    show ?thesis
      by (cases rule: wf_update_paths [of impl msg s])
        (simp_all add: wf_update_callback ci_trace acks_def)
  next
    case cd_wf_update_callback
    show ?thesis
      by (cases rule: cd_wf_update_paths [of impl msg s])
        (simp_all add: cd_wf_update_callback cd_trace acks_def)
  qed
  moreover have "world (deliver impl cb msg s) =
      snd (stan_Ack impl msg (world (at_return impl cb msg s)))"
    by (simp add: deliver_at_return world_msg_Ack)
  ultimately show ?thesis
    using last_delivery_trace [of impl cb msg s] by simp
qed

theorem ack_exactly_once_on_return_witness:
  "acks (delivery_trace (example_impl None (Inr (example_wfr CD_WORKFLOW_TYPE_PRE)) None)
           cd_wf_update_callback \<lparr>Data = ''Succeeded''\<rparr> example_start) =
     [\<lparr>Data = ''Succeeded''\<rparr>]
   \<and> last (delivery_trace (example_impl None (Inr (example_wfr CD_WORKFLOW_TYPE_PRE)) None)
            cd_wf_update_callback \<lparr>Data = ''Succeeded''\<rparr> example_start) =
     Ack_call \<lparr>Data = ''Succeeded''\<rparr> None
   \<and> world (at_return (example_impl None (Inr (example_wfr CD_WORKFLOW_TYPE_PRE)) None)
              cd_wf_update_callback \<lparr>Data = ''Succeeded''\<rparr> example_start) = 2
   \<and> world (deliver (example_impl None (Inr (example_wfr CD_WORKFLOW_TYPE_PRE)) None)
              cd_wf_update_callback \<lparr>Data = ''Succeeded''\<rparr> example_start) = 3"
proof -
  let ?impl = "example_impl None (Inr (example_wfr CD_WORKFLOW_TYPE_PRE)) None"
  let ?msg = "\<lparr>Data = ''Succeeded''\<rparr>"
  have reached: "world (at_return ?impl cd_wf_update_callback ?msg example_start) = 2"
    by (simp add: cd_wf_update_body_def logger_def emit_def invoke_def Let_def
        example_impl_def example_wfr_def example_start_def NodeSucceeded_def)
  have acked: "stan_Ack ?impl m w = (None, Suc w)" for m w
    by (simp add: example_impl_def)
  show ?thesis
    using ack_exactly_once_on_return [of ?impl cd_wf_update_callback ?msg example_start]
    by (simp add: reached [unfolded at_return.simps] acked)
qed

subsection \<open>Notifications on the deploy channel\<close>

text \<open>
  Claim C2. A deploy-channel message decodes; the deploy handler's update, on the world of
  the delivery, returns without error a run id and a status that is Succeeded, Failed or
  Error; the repository, on the world the update left, finds for that id a run record of
  type Pre or Post. Name the results of the event factory's \<open>Build\<close> (called with event type
  Success for Succeeded and Fail otherwise, the record's pipeline, application and
  environment ids and category CD), of \<open>BuildExtraCDData\<close> (called with the built event, the
  record and the record's own type as stage) and of the event client's \<open>WriteEvent\<close> (called
  with the enriched event), each on the world the previous call left. Then the calls of
  the delivery other than log lines are exactly: the update, the lookup, these three calls
  with these results, and the acknowledgment on the world the write left. So exactly one
  notification is dispatched, whether the write succeeds or not, and the final world is the
  one the acknowledgment leaves.
\<close>

theorem terminal_pre_post_dispatches_one_notification:
  assumes "json_Unmarshal impl (Data msg) = Inr wfStatus"
    and "cdHandler_UpdateWorkflow impl wfStatus (world s) = ((wfrId, wfrStatus, None), w1)"
    and "cdWorkflowRepository_FindWorkflowRunnerById impl wfrId w1 = (Inr wfr, w2)"
    and "wfrStatus = NodeSucceeded \<or> wfrStatus = NodeFailed \<or> wfrStatus = NodeError"
    and "WorkflowType wfr = CD_WORKFLOW_TYPE_PRE \<or> WorkflowType wfr = CD_WORKFLOW_TYPE_POST"
    and "eventFactory_Build impl (if wfrStatus = NodeSucceeded then Success else Fail)
           (PipelineId (CdWorkflow wfr)) (AppId (Pipeline (CdWorkflow wfr)))
           (EnvironmentId (Pipeline (CdWorkflow wfr))) CD w2 = (ev, w3)"
    and "eventFactory_BuildExtraCDData impl ev wfr 0 (WorkflowType wfr) w3 = (ev', w4)"
    and "eventClient_WriteEvent impl ev' w4 = (r, w5)"
  shows "filter (\<lambda>c. \<not> is_Log c) (delivery_trace impl cd_wf_update_callback msg s) =
           [CdUpdateWorkflow_call wfStatus wfrId wfrStatus None,
            FindWorkflowRunnerById_call wfrId (Inr wfr),
            Build_call (if wfrStatus = NodeSucceeded then Success else Fail)
              (PipelineId (CdWorkflow wfr)) (AppId (Pipeline (CdWorkflow wfr)))
              (EnvironmentId (Pipeline (CdWorkflow wfr))) CD ev,
            BuildExtraCDData_call ev wfr 0 (WorkflowType wfr) ev',
            WriteEvent_call ev' r,
            Ack_call msg (fst (stan_Ack impl msg w5))]
         \<and> filter is_event_call (delivery_trace impl cd_wf_update_callback msg s) =
             [Build_call (if wfrStatus = NodeSucceeded then Success else Fail)
                (PipelineId (CdWorkflow wfr)) (AppId (Pipeline (CdWorkflow wfr)))
                (EnvironmentId (Pipeline (CdWorkflow wfr))) CD ev,
              BuildExtraCDData_call ev wfr 0 (WorkflowType wfr) ev',
              WriteEvent_call ev' r]
         \<and> dispatched (delivery_trace impl cd_wf_update_callback msg s) = [ev']
         \<and> world (deliver impl cd_wf_update_callback msg s) = snd (stan_Ack impl msg w5)"
proof -
  note run = cd_wf_update_notifies [OF assms]
  from run(1) obtain dbg failure where
    "delivery_trace impl cd_wf_update_callback msg s =
           [Log DebugLevel (Text ''received cd wf update request''),
            Log DebugLevel (Text ''received cd wf update request body''),
            CdUpdateWorkflow_call wfStatus wfrId wfrStatus None,
            Log DebugLevel (Number wfrId),
            FindWorkflowRunnerById_call wfrId (Inr wfr),
            Build_call (if wfrStatus = NodeSucceeded then Success else Fail)
              (PipelineId (CdWorkflow wfr)) (AppId (Pipeline (CdWorkflow wfr)))
              (EnvironmentId (Pipeline (CdWorkflow wfr))) CD ev,
            Log DebugLevel dbg,
            BuildExtraCDData_call ev wfr 0 (WorkflowType wfr) ev',
            WriteEvent_call ev' r]
           @ (case r of None \<Rightarrow> [] | Some e \<Rightarrow> [Log ErrorLevel failure])
           @ [Ack_call msg (fst (stan_Ack impl msg w5))]"
    unfolding cd_trace using emitted_append by blast
  then show ?thesis
    using run(2) by (simp add: dispatched_def split: option.splits)
qed

theorem terminal_pre_post_dispatches_one_notification_witness:
  "json_Unmarshal (example_impl None (Inr (example_wfr CD_WORKFLOW_TYPE_PRE)) None)
     (Data \<lparr>Data = ''Succeeded''\<rparr>) = Inr ''Succeeded''
   \<and> cdHandler_UpdateWorkflow (example_impl None (Inr (example_wfr CD_WORKFLOW_TYPE_PRE)) None)
       ''Succeeded'' (world example_start) = ((1, ''Succeeded'', None), 1)
   \<and> cdWorkflowRepository_FindWorkflowRunnerById
       (example_impl None (Inr (example_wfr CD_WORKFLOW_TYPE_PRE)) None) 1 1 =
       (Inr (example_wfr CD_WORKFLOW_TYPE_PRE), 1)
   \<and> ''Succeeded'' = NodeSucceeded
   \<and> WorkflowType (example_wfr CD_WORKFLOW_TYPE_PRE) = CD_WORKFLOW_TYPE_PRE
   \<and> eventFactory_Build (example_impl None (Inr (example_wfr CD_WORKFLOW_TYPE_PRE)) None)
       Success 7 3 9 CD 1 = ((Success, None), 1)
   \<and> eventFactory_BuildExtraCDData
       (example_impl None (Inr (example_wfr CD_WORKFLOW_TYPE_PRE)) None)
       (Success, None) (example_wfr CD_WORKFLOW_TYPE_PRE) 0 CD_WORKFLOW_TYPE_PRE 1 =
       ((Success, Some CD_WORKFLOW_TYPE_PRE), 1)
   \<and> eventClient_WriteEvent (example_impl None (Inr (example_wfr CD_WORKFLOW_TYPE_PRE)) None)
       (Success, Some CD_WORKFLOW_TYPE_PRE) 1 = (None, 2)
   \<and> filter (\<lambda>c. \<not> is_Log c)
       (delivery_trace (example_impl None (Inr (example_wfr CD_WORKFLOW_TYPE_PRE)) None)
          cd_wf_update_callback \<lparr>Data = ''Succeeded''\<rparr> example_start) =
       [CdUpdateWorkflow_call ''Succeeded'' 1 ''Succeeded'' None,
        FindWorkflowRunnerById_call 1 (Inr (example_wfr CD_WORKFLOW_TYPE_PRE)),
        Build_call Success 7 3 9 CD (Success, None),
        BuildExtraCDData_call (Success, None) (example_wfr CD_WORKFLOW_TYPE_PRE) 0
          CD_WORKFLOW_TYPE_PRE (Success, Some CD_WORKFLOW_TYPE_PRE),
        WriteEvent_call (Success, Some CD_WORKFLOW_TYPE_PRE) None,
        Ack_call \<lparr>Data = ''Succeeded''\<rparr> None]
   \<and> dispatched
       (delivery_trace (example_impl None (Inr (example_wfr CD_WORKFLOW_TYPE_PRE)) None)
          cd_wf_update_callback \<lparr>Data = ''Succeeded''\<rparr> example_start) =
       [(Success, Some CD_WORKFLOW_TYPE_PRE)]
   \<and> world (deliver (example_impl None (Inr (example_wfr CD_WORKFLOW_TYPE_PRE)) None)
              cd_wf_update_callback \<lparr>Data = ''Succeeded''\<rparr> example_start) = 3"
proof -
  let ?impl = "example_impl None (Inr (example_wfr CD_WORKFLOW_TYPE_PRE)) None"
  let ?wfr = "example_wfr CD_WORKFLOW_TYPE_PRE"
  let ?msg = "\<lparr>Data = ''Succeeded''\<rparr>"
  have decoded: "json_Unmarshal ?impl (Data ?msg) = Inr ''Succeeded''"
    by (simp add: example_impl_def)
  have updated: "cdHandler_UpdateWorkflow ?impl ''Succeeded'' (world example_start) =
      ((1, ''Succeeded'', None), 1)"
    by (simp add: example_impl_def example_start_def)
  have found: "cdWorkflowRepository_FindWorkflowRunnerById ?impl 1 1 = (Inr ?wfr, 1)"
    by (simp add: example_impl_def)
  have succeeded: "''Succeeded'' = NodeSucceeded"
    by (simp add: NodeSucceeded_def)
  then have terminal: "''Succeeded'' = NodeSucceeded \<or> ''Succeeded'' = NodeFailed
      \<or> ''Succeeded'' = NodeError"
    by simp
  have pre: "WorkflowType ?wfr = CD_WORKFLOW_TYPE_PRE"
    by (simp add: example_wfr_def)
  then have stage: "WorkflowType ?wfr = CD_WORKFLOW_TYPE_PRE
      \<or> WorkflowType ?wfr = CD_WORKFLOW_TYPE_POST"
    by simp
  have ids: "PipelineId (CdWorkflow ?wfr) = 7" "AppId (Pipeline (CdWorkflow ?wfr)) = 3"
    "EnvironmentId (Pipeline (CdWorkflow ?wfr)) = 9"
    by (simp_all add: example_wfr_def)
  have built: "eventFactory_Build ?impl Success 7 3 9 CD 1 = ((Success, None), 1)"
    by (simp add: example_impl_def)
  have built':
    "eventFactory_Build ?impl (if ''Succeeded'' = NodeSucceeded then Success else Fail)
       (PipelineId (CdWorkflow ?wfr)) (AppId (Pipeline (CdWorkflow ?wfr)))
       (EnvironmentId (Pipeline (CdWorkflow ?wfr))) CD 1 = ((Success, None), 1)"
    using built succeeded by (simp add: ids)
  have enriched: "eventFactory_BuildExtraCDData ?impl (Success, None) ?wfr 0
      CD_WORKFLOW_TYPE_PRE 1 = ((Success, Some CD_WORKFLOW_TYPE_PRE), 1)"
    by (simp add: example_impl_def)
  have enriched': "eventFactory_BuildExtraCDData ?impl (Success, None) ?wfr 0
      (WorkflowType ?wfr) 1 = ((Success, Some CD_WORKFLOW_TYPE_PRE), 1)"
    using enriched by (simp add: pre)
  have wrote: "eventClient_WriteEvent ?impl (Success, Some CD_WORKFLOW_TYPE_PRE) 1 = (None, 2)"
    by (simp add: example_impl_def)
  have acked: "stan_Ack ?impl m w = (None, Suc w)" for m w
    by (simp add: example_impl_def)
  show ?thesis
    using terminal_pre_post_dispatches_one_notification
      [OF decoded updated found terminal stage built' enriched' wrote]
      decoded updated found pre built enriched wrote
    by (simp add: ids acked NodeSucceeded_def)
qed

text \<open>
  Claim C3. When the run record found for a deploy-channel message has type Deploy, the
  run makes no call that concerns events: nothing is built and nothing is written,
  whatever the status string.
\<close>

theorem deploy_type_never_notified:
  assumes "FindWorkflowRunnerById_call wfrId (Inr wfr)
           \<in> set (delivery_trace impl cd_wf_update_callback msg s)"
    and "WorkflowType wfr = CD_WORKFLOW_TYPE_DEPLOY"
  shows "dispatched (delivery_trace impl cd_wf_update_callback msg s) = []
         \<and> filter is_event_call (delivery_trace impl cd_wf_update_callback msg s) = []"
  using assms unfolding cd_trace
  by (cases rule: cd_wf_update_paths [of impl msg s]) (auto simp: dispatched_def)

theorem deploy_type_never_notified_witness:
  "FindWorkflowRunnerById_call 1 (Inr (example_wfr CD_WORKFLOW_TYPE_DEPLOY))
     \<in> set (delivery_trace (example_impl None (Inr (example_wfr CD_WORKFLOW_TYPE_DEPLOY)) None)
              cd_wf_update_callback \<lparr>Data = ''Error''\<rparr> example_start)
   \<and> WorkflowType (example_wfr CD_WORKFLOW_TYPE_DEPLOY) = CD_WORKFLOW_TYPE_DEPLOY
   \<and> dispatched
       (delivery_trace (example_impl None (Inr (example_wfr CD_WORKFLOW_TYPE_DEPLOY)) None)
          cd_wf_update_callback \<lparr>Data = ''Error''\<rparr> example_start) = []
   \<and> filter is_event_call
       (delivery_trace (example_impl None (Inr (example_wfr CD_WORKFLOW_TYPE_DEPLOY)) None)
          cd_wf_update_callback \<lparr>Data = ''Error''\<rparr> example_start) = []"
proof -
  have found: "FindWorkflowRunnerById_call 1 (Inr (example_wfr CD_WORKFLOW_TYPE_DEPLOY))
     \<in> set (delivery_trace (example_impl None (Inr (example_wfr CD_WORKFLOW_TYPE_DEPLOY)) None)
              cd_wf_update_callback \<lparr>Data = ''Error''\<rparr> example_start)"
    by (simp add: example_deploy_error)
  have stage: "WorkflowType (example_wfr CD_WORKFLOW_TYPE_DEPLOY) = CD_WORKFLOW_TYPE_DEPLOY"
    by (simp add: example_wfr_def)
  show ?thesis
    using deploy_type_never_notified [OF found stage] found stage by blast
qed

text \<open>
  Claim C4. When the deploy handler's update returns a status string that is none of
  Succeeded, Failed, Error, the run makes no call that concerns events, whatever run
  record is found.
\<close>

theorem non_terminal_status_never_notified:
  assumes "CdUpdateWorkflow_call wfStatus wfrId wfrStatus err
           \<in> set (delivery_trace impl cd_wf_update_callback msg s)"
    and "wfrStatus \<noteq> NodeSucceeded" and "wfrStatus \<noteq> NodeFailed" and "wfrStatus \<noteq> NodeError"
  shows "dispatched (delivery_trace impl cd_wf_update_callback msg s) = []
         \<and> filter is_event_call (delivery_trace impl cd_wf_update_callback msg s) = []"
  using assms unfolding cd_trace
  by (cases rule: cd_wf_update_paths [of impl msg s]) (auto simp: dispatched_def)

theorem non_terminal_status_never_notified_witness:
  "CdUpdateWorkflow_call ''Running'' 1 ''Running'' None
     \<in> set (delivery_trace (example_impl None (Inr (example_wfr CD_WORKFLOW_TYPE_PRE)) None)
              cd_wf_update_callback \<lparr>Data = ''Running''\<rparr> example_start)
   \<and> ''Running'' \<noteq> NodeSucceeded \<and> ''Running'' \<noteq> NodeFailed \<and> ''Running'' \<noteq> NodeError
   \<and> dispatched
       (delivery_trace (example_impl None (Inr (example_wfr CD_WORKFLOW_TYPE_PRE)) None)
          cd_wf_update_callback \<lparr>Data = ''Running''\<rparr> example_start) = []
   \<and> filter is_event_call
       (delivery_trace (example_impl None (Inr (example_wfr CD_WORKFLOW_TYPE_PRE)) None)
          cd_wf_update_callback \<lparr>Data = ''Running''\<rparr> example_start) = []"
proof -
  have updated: "CdUpdateWorkflow_call ''Running'' 1 ''Running'' None
     \<in> set (delivery_trace (example_impl None (Inr (example_wfr CD_WORKFLOW_TYPE_PRE)) None)
              cd_wf_update_callback \<lparr>Data = ''Running''\<rparr> example_start)"
    by (simp add: example_pre_running)
  have running: "''Running'' \<noteq> NodeSucceeded" "''Running'' \<noteq> NodeFailed"
    "''Running'' \<noteq> NodeError"
    by (simp_all add: NodeSucceeded_def NodeFailed_def NodeError_def)
  show ?thesis
    using non_terminal_status_never_notified [OF updated running] updated running by blast
qed

text \<open>
  Claim C5. When the lookup of the run record by the returned id fails, the run ends with
  the lookup, one error line and the acknowledgment: nothing is built, nothing is written,
  and the closure returns (its result is the state reached; no branch of it leaves
  otherwise).
\<close>

theorem lookup_failure_aborts_without_notification:
  assumes "FindWorkflowRunnerById_call wfrId (Inl e)
           \<in> set (delivery_trace impl cd_wf_update_callback msg s)"
  shows "dispatched (delivery_trace impl cd_wf_update_callback msg s) = []
         \<and> filter is_event_call (delivery_trace impl cd_wf_update_callback msg s) = []
         \<and> (\<exists>before a. delivery_trace impl cd_wf_update_callback msg s =
               before @ [FindWorkflowRunnerById_call wfrId (Inl e),
                         Log ErrorLevel (Text ''could not get wf runner''),
                         Ack_call msg a])"
  using assms unfolding cd_trace
  by (cases rule: cd_wf_update_paths [of impl msg s]) (auto simp: dispatched_def)

theorem lookup_failure_aborts_without_notification_witness:
  "FindWorkflowRunnerById_call 1 (Inl ''pg: no rows in result set'')
     \<in> set (delivery_trace (example_impl None (Inl ''pg: no rows in result set'') None)
              cd_wf_update_callback \<lparr>Data = ''Succeeded''\<rparr> example_start)
   \<and> dispatched
       (delivery_trace (example_impl None (Inl ''pg: no rows in result set'') None)
          cd_wf_update_callback \<lparr>Data = ''Succeeded''\<rparr> example_start) = []
   \<and> filter is_event_call
       (delivery_trace (example_impl None (Inl ''pg: no rows in result set'') None)
          cd_wf_update_callback \<lparr>Data = ''Succeeded''\<rparr> example_start) = []
   \<and> (\<exists>before a.
         delivery_trace (example_impl None (Inl ''pg: no rows in result set'') None)
           cd_wf_update_callback \<lparr>Data = ''Succeeded''\<rparr> example_start =
         before @ [FindWorkflowRunnerById_call 1 (Inl ''pg: no rows in result set''),
                   Log ErrorLevel (Text ''could not get wf runner''),
                   Ack_call \<lparr>Data = ''Succeeded''\<rparr> a])"
proof -
  have failed: "FindWorkflowRunnerById_call 1 (Inl ''pg: no rows in result set'')
     \<in> set (delivery_trace (example_impl None (Inl ''pg: no rows in result set'') None)
              cd_wf_update_callback \<lparr>Data = ''Succeeded''\<rparr> example_start)"
    by (simp add: example_lookup_failed)
  show ?thesis
    using lookup_failure_aborts_without_notification [OF failed] failed by blast
qed

subsection \<open>Malformed messages\<close>

text \<open>
  Claim C6. When the payload does not decode, on either channel, the only call of the run
  that is not a log line is the acknowledgment of the message, and the world after the
  run is the one the acknowledgment leaves: no handler, repository, factory or client
  operation is called.
\<close>

theorem malformed_message_only_logged_and_acked:
  assumes "json_Unmarshal impl (Data msg) = Inl e"
  shows "filter (\<lambda>c. \<not> is_Log c) (delivery_trace impl cb msg s) =
           [Ack_call msg (fst (stan_Ack impl msg (world s)))]
         \<and> world (deliver impl cb msg s) = snd (stan_Ack impl msg (world s))"
proof (cases cb)
  case wf_update_callback
  show ?thesis
    using assms unfolding wf_update_callback ci_trace
    by (cases rule: wf_update_paths [of impl msg s]) simp_all
next
  case cd_wf_update_callback
  show ?thesis
    using assms unfolding cd_wf_update_callback cd_trace
    by (cases rule: cd_wf_update_paths [of impl msg s]) simp_all
qed

theorem malformed_message_only_logged_and_acked_witness:
  "json_Unmarshal (example_impl None (Inr (example_wfr CD_WORKFLOW_TYPE_PRE)) None)
     (Data \<lparr>Data = ''''\<rparr>) = Inl ''unexpected end of JSON input''
   \<and> filter (\<lambda>c. \<not> is_Log c)
       (delivery_trace (example_impl None (Inr (example_wfr CD_WORKFLOW_TYPE_PRE)) None)
          cd_wf_update_callback \<lparr>Data = ''''\<rparr> example_start) =
     [Ack_call \<lparr>Data = ''''\<rparr>
        (fst (stan_Ack (example_impl None (Inr (example_wfr CD_WORKFLOW_TYPE_PRE)) None)
                \<lparr>Data = ''''\<rparr> (world example_start)))]
   \<and> world (deliver (example_impl None (Inr (example_wfr CD_WORKFLOW_TYPE_PRE)) None)
              cd_wf_update_callback \<lparr>Data = ''''\<rparr> example_start) =
     snd (stan_Ack (example_impl None (Inr (example_wfr CD_WORKFLOW_TYPE_PRE)) None)
            \<lparr>Data = ''''\<rparr> (world example_start))"
proof -
  have malformed:
    "json_Unmarshal (example_impl None (Inr (example_wfr CD_WORKFLOW_TYPE_PRE)) None)
       (Data \<lparr>Data = ''''\<rparr>) = Inl ''unexpected end of JSON input''"
    by (simp add: example_impl_def)
  show ?thesis
    using malformed_message_only_logged_and_acked [OF malformed] malformed by blast
qed

subsection \<open>The build channel\<close>

text \<open>
  Claim C7. When a build-channel payload decodes, the calls of the delivery other than log
  lines are exactly two: the build handler's update, called with the decoded status on the
  world of the delivery and recorded with what it returns, and the acknowledgment on the
  world the update left, which decides the final world. So the update is called exactly
  once, and the run makes no call that concerns events, whether the update returns an
  error or not.
\<close>

theorem build_channel_updates_once_never_notifies:
  assumes "json_Unmarshal impl (Data msg) = Inr wfStatus"
  shows "filter (\<lambda>c. \<not> is_Log c) (delivery_trace impl wf_update_callback msg s) =
           [CiUpdateWorkflow_call wfStatus
              (fst (ciHandler_UpdateWorkflow impl wfStatus (world s))),
            Ack_call msg
              (fst (stan_Ack impl msg
                      (snd (ciHandler_UpdateWorkflow impl wfStatus (world s)))))]
         \<and> world (deliver impl wf_update_callback msg s) =
             snd (stan_Ack impl msg (snd (ciHandler_UpdateWorkflow impl wfStatus (world s))))
         \<and> ci_updates (delivery_trace impl wf_update_callback msg s) = [wfStatus]
         \<and> dispatched (delivery_trace impl wf_update_callback msg s) = []
         \<and> filter is_event_call (delivery_trace impl wf_update_callback msg s) = []"
proof -
  obtain r w1 where upd: "ciHandler_UpdateWorkflow impl wfStatus (world s) = (r, w1)"
    by (cases "ciHandler_UpdateWorkflow impl wfStatus (world s)")
  note run = wf_update_decoded [OF assms upd]
  have "delivery_trace impl wf_update_callback msg s =
           [Log DebugLevel (Text ''received wf update request''),
            CiUpdateWorkflow_call wfStatus r]
           @ (case r of None \<Rightarrow> []
              | Some e \<Rightarrow> [Log ErrorLevel (Text ''error on update workflow status'')])
           @ [Ack_call msg (fst (stan_Ack impl msg w1))]"
    unfolding ci_trace by (rule emitted_append) (rule run(1))
  then show ?thesis
    using run(2) upd
    by (simp add: ci_updates_def dispatched_def split: option.splits)
qed

theorem build_channel_updates_once_never_notifies_witness:
  "json_Unmarshal (example_impl None (Inr (example_wfr CD_WORKFLOW_TYPE_PRE)) None)
     (Data \<lparr>Data = ''Succeeded''\<rparr>) = Inr ''Succeeded''
   \<and> ciHandler_UpdateWorkflow (example_impl None (Inr (example_wfr CD_WORKFLOW_TYPE_PRE)) None)
       ''Succeeded'' (world example_start) = (None, 1)
   \<and> filter (\<lambda>c. \<not> is_Log c)
       (delivery_trace (example_impl None (Inr (example_wfr CD_WORKFLOW_TYPE_PRE)) None)
          wf_update_callback \<lparr>Data = ''Succeeded''\<rparr> example_start) =
       [CiUpdateWorkflow_call ''Succeeded'' None, Ack_call \<lparr>Data = ''Succeeded''\<rparr> None]
   \<and> world (deliver (example_impl None (Inr (example_wfr CD_WORKFLOW_TYPE_PRE)) None)
              wf_update_callback \<lparr>Data = ''Succeeded''\<rparr> example_start) = 2
   \<and> ci_updates
       (delivery_trace (example_impl None (Inr (example_wfr CD_WORKFLOW_TYPE_PRE)) None)
          wf_update_callback \<lparr>Data = ''Succeeded''\<rparr> example_start) = [''Succeeded'']
   \<and> dispatched
       (delivery_trace (example_impl None (Inr (example_wfr CD_WORKFLOW_TYPE_PRE)) None)
          wf_update_callback \<lparr>Data = ''Succeeded''\<rparr> example_start) = []
   \<and> filter is_event_call
       (delivery_trace (example_impl None (Inr (example_wfr CD_WORKFLOW_TYPE_PRE)) None)
          wf_update_callback \<lparr>Data = ''Succeeded''\<rparr> example_start) = []"
proof -
  let ?impl = "example_impl None (Inr (example_wfr CD_WORKFLOW_TYPE_PRE)) None"
  let ?msg = "\<lparr>Data = ''Succeeded''\<rparr>"
  have decoded: "json_Unmarshal ?impl (Data ?msg) = Inr ''Succeeded''"
    by (simp add: example_impl_def)
  have updated: "ciHandler_UpdateWorkflow ?impl ''Succeeded'' (world example_start) = (None, 1)"
    by (simp add: example_impl_def example_start_def)
  have acked: "stan_Ack ?impl m w = (None, Suc w)" for m w
    by (simp add: example_impl_def)
  show ?thesis
    using build_channel_updates_once_never_notifies [OF decoded, where s = example_start]
      decoded updated
    by (simp add: acked)
qed

subsection \<open>Registration\<close>

text \<open>
  Claim C8. \<open>Subscribe\<close> and \<open>SubscribeCD\<close> each return to their caller exactly the error
  result of their \<open>QueueSubscribe\<close> call. The constructor returns the handler when both
  return no error, the second being run in the state the first leaves, and returns
  \<open>nil\<close> in every other case: a failed registration on either channel fails the
  initialization, and one successful registration does not make up for the other.
\<close>

theorem registration_failure_fails_initialization:
  "fst (Subscribe impl s) =
     fst (pubsubClient_QueueSubscribe impl workflowStatusUpdate workflowStatusUpdateGroup
            wf_update_callback (subscriptionOptions impl workflowStatusUpdateDurable) (world s))
   \<and> fst (SubscribeCD impl s) =
     fst (pubsubClient_QueueSubscribe impl cdWorkflowStatusUpdate cdWorkflowStatusUpdateGroup
            cd_wf_update_callback (subscriptionOptions impl cdWorkflowStatusUpdateDurable)
            (world s))
   \<and> fst (NewWorkflowStatusUpdateHandlerImpl impl s) =
       (if fst (Subscribe impl s) = None
           \<and> fst (SubscribeCD impl (snd (Subscribe impl s))) = None
        then Some impl else None)"
  by (simp add: Subscribe_def SubscribeCD_def NewWorkflowStatusUpdateHandlerImpl_def
      invoke_def Let_def split: prod.splits option.splits)

subsection \<open>Failed dispatch\<close>



subsection \<open>Event types\<close>

text \<open>
  Claim C10. In a delivery on either channel, every \<open>Build\<close> call is made with event type
  Success or Fail, never with the default \<open>EventType(0)\<close> the variable starts with; and
  every event that is written is the enrichment of an event built by such a call, these
  three calls being all the event calls of the run.
\<close>

theorem dispatched_event_type_success_or_fail:
  "(\<forall>t p a e c ev. Build_call t p a e c ev \<in> set (delivery_trace impl cb msg s)
       \<longrightarrow> t \<noteq> EventType_0 \<and> (t = Success \<or> t = Fail))
   \<and> (\<forall>ev' \<in> set (dispatched (delivery_trace impl cb msg s)).
         \<exists>t p a e ev wfr stage r.
           t \<noteq> EventType_0 \<and> (t = Success \<or> t = Fail)
           \<and> filter is_event_call (delivery_trace impl cb msg s) =
               [Build_call t p a e CD ev, BuildExtraCDData_call ev wfr 0 stage ev',
                WriteEvent_call ev' r])"
proof (cases cb)
  case wf_update_callback
  show ?thesis
    unfolding wf_update_callback ci_trace
    by (cases rule: wf_update_paths [of impl msg s]) (simp_all add: dispatched_def)
next
  case cd_wf_update_callback
  show ?thesis
    unfolding cd_wf_update_callback cd_trace
    by (cases rule: cd_wf_update_paths [of impl msg s]) (simp_all add: dispatched_def)
qed

theorem dispatched_event_type_success_or_fail_witness:
  "Build_call Fail 7 3 9 CD (Fail, None)
     \<in> set (delivery_trace (example_impl None (Inr (example_wfr CD_WORKFLOW_TYPE_POST)) None)
              cd_wf_update_callback \<lparr>Data = ''Error''\<rparr> example_start)
   \<and> (Fail, Some CD_WORKFLOW_TYPE_POST)
     \<in> set (dispatched
              (delivery_trace (example_impl None (Inr (example_wfr CD_WORKFLOW_TYPE_POST)) None)
                 cd_wf_update_callback \<lparr>Data = ''Error''\<rparr> example_start))
   \<and> Fail \<noteq> EventType_0 \<and> (Fail = Success \<or> Fail = Fail)
   \<and> (\<exists>t p a e ev wfr stage r.
         t \<noteq> EventType_0 \<and> (t = Success \<or> t = Fail)
         \<and> filter is_event_call
             (delivery_trace (example_impl None (Inr (example_wfr CD_WORKFLOW_TYPE_POST)) None)
                cd_wf_update_callback \<lparr>Data = ''Error''\<rparr> example_start) =
           [Build_call t p a e CD ev,
            BuildExtraCDData_call ev wfr 0 stage (Fail, Some CD_WORKFLOW_TYPE_POST),
            WriteEvent_call (Fail, Some CD_WORKFLOW_TYPE_POST) r])"
proof -
  have built: "Build_call Fail 7 3 9 CD (Fail, None)
     \<in> set (delivery_trace (example_impl None (Inr (example_wfr CD_WORKFLOW_TYPE_POST)) None)
              cd_wf_update_callback \<lparr>Data = ''Error''\<rparr> example_start)"
    by (simp add: example_post_error)
  have sent: "(Fail, Some CD_WORKFLOW_TYPE_POST)
     \<in> set (dispatched
              (delivery_trace (example_impl None (Inr (example_wfr CD_WORKFLOW_TYPE_POST)) None)
                 cd_wf_update_callback \<lparr>Data = ''Error''\<rparr> example_start))"
    by (simp add: example_post_error dispatched_def)
  show ?thesis
    using dispatched_event_type_success_or_fail
      [of "example_impl None (Inr (example_wfr CD_WORKFLOW_TYPE_POST)) None"
          cd_wf_update_callback "\<lparr>Data = ''Error''\<rparr>" example_start]
      built sent
    by blast
qed

end
